theory Spec2Isabelle
  imports Main "HOL-Library.Word"
begin

section \<open>Package tls: certificate requests and the renewal decision\<close>

text \<open>
  A shallow embedding of \<^verbatim>\<open>pkg/tls/tls.go\<close>. The functions of the package are
  translated line by line. What they call in Go's standard library and in the Kubernetes
  API packages is not part of the repository: the API types are written out as records,
  and the library functions are the fields of a record \<open>stdlib\<close> that every function of
  the package takes as its first argument, so that each theorem holds for whatever these
  functions compute.
\<close>

subsection \<open>Bytes, errors, time\<close>

text \<open>A \<^verbatim>\<open>[]byte\<close>; a nil slice and an empty one are both \<open>[]\<close>.\<close>

type_synonym bytes = "8 word list"

text \<open>
  Go's \<^verbatim>\<open>error\<close>: the package builds its errors with \<^verbatim>\<open>errors.New\<close> and reads
  them with \<^verbatim>\<open>Error()\<close>, so an error is its message.
\<close>

datatype error = errorString string

definition errors_New :: "string \<Rightarrow> error" where
  "errors_New text = errorString text"

fun Error :: "error \<Rightarrow> string" where
  "Error (errorString s) = s"

text \<open>
  \<^verbatim>\<open>time.Time\<close> is an instant, counted here in nanoseconds from the epoch as an
  unbounded integer; \<^verbatim>\<open>time.Duration\<close> is an \<^verbatim>\<open>int64\<close> count of nanoseconds.
  \<^verbatim>\<open>Time.Sub\<close> returns the difference, and the largest (smallest) duration when the
  difference does not fit. The expiry read from a certificate carries no monotonic clock
  reading, so the subtraction in the package is the one of wall-clock instants.
\<close>

type_synonym Time = int
type_synonym Duration = int

definition minDuration :: Duration where
  "minDuration = - (2 ^ 63)"

definition maxDuration :: Duration where
  "maxDuration = 2 ^ 63 - 1"

definition Time_Sub :: "Time \<Rightarrow> Time \<Rightarrow> Duration" where
  "Time_Sub t u =
     (let d = t - u
      in if d < minDuration then minDuration
         else if maxDuration < d then maxDuration
         else d)"

definition Nanosecond :: Duration where
  "Nanosecond = 1"

definition Microsecond :: Duration where
  "Microsecond = 1000 * Nanosecond"

definition Millisecond :: Duration where
  "Millisecond = 1000 * Microsecond"

definition Second :: Duration where
  "Second = 1000 * Millisecond"

definition Minute :: Duration where
  "Minute = 60 * Second"

definition Hour :: Duration where
  "Hour = 60 * Minute"

subsection \<open>The structs of the package\<close>

record TlsCertificateProps =
  Service :: string
  Namespace :: string
  ApiServerHost :: string

record TlsPemPair =
  Certificate :: bytes
  PrivateKey :: bytes

subsection \<open>Types of the standard library and of the Kubernetes API\<close>

text \<open>\<^verbatim>\<open>net.IP\<close> is a byte slice; \<^verbatim>\<open>net.ParseIP\<close> returns nil (\<open>None\<close>) for a string
  that is not an IP literal.\<close>

type_synonym IP = bytes

text \<open>\<^verbatim>\<open>rand.Reader\<close>: the entropy a call may read. A \<^verbatim>\<open>*rsa.PrivateKey\<close> is taken to
  point to a key: the package never tests it for nil.\<close>

type_synonym Reader = "nat \<Rightarrow> 8 word"

record rsa_PublicKey =
  modulusN :: int
  exponentE :: int

record rsa_PrivateKey =
  PublicKey :: rsa_PublicKey
  exponentD :: int
  Primes :: "int list"

record pem_Block =
  Type :: string
  Headers :: "string \<rightharpoonup> string"
  Bytes :: bytes

record pkix_Name =
  CommonName :: string

datatype x509_SignatureAlgorithm =
    UnknownSignatureAlgorithm
  | MD2WithRSA
  | MD5WithRSA
  | SHA1WithRSA
  | SHA256WithRSA
  | SHA384WithRSA
  | SHA512WithRSA
  | DSAWithSHA1
  | DSAWithSHA256
  | ECDSAWithSHA1
  | ECDSAWithSHA256
  | ECDSAWithSHA384
  | ECDSAWithSHA512
  | SHA256WithRSAPSS
  | SHA384WithRSAPSS
  | SHA512WithRSAPSS
  | PureEd25519

text \<open>The fields of \<^verbatim>\<open>x509.CertificateRequest\<close> that the package sets; the others keep
  their zero values.\<close>

record x509_CertificateRequest =
  Subject :: pkix_Name
  SignatureAlgorithm :: x509_SignatureAlgorithm
  DNSNames :: "string list"
  IPAddresses :: "IP list"

text \<open>Of a parsed \<^verbatim>\<open>x509.Certificate\<close> the package reads the validity period only.\<close>

record x509_Certificate =
  NotBefore :: Time
  NotAfter :: Time

record metav1_TypeMeta =
  Kind :: string
  APIVersion :: string

record metav1_ObjectMeta =
  Name :: string

text \<open>\<^verbatim>\<open>certificates.KeyUsage\<close> of \<^verbatim>\<open>k8s.io/api/certificates/v1beta1\<close>.\<close>

datatype KeyUsage =
    UsageSigning
  | UsageDigitalSignature
  | UsageContentCommittment
  | UsageKeyEncipherment
  | UsageKeyAgreement
  | UsageDataEncipherment
  | UsageCertSign
  | UsageCRLSign
  | UsageEncipherOnly
  | UsageDecipherOnly
  | UsageAny
  | UsageServerAuth
  | UsageClientAuth
  | UsageCodeSigning
  | UsageEmailProtection
  | UsageSMIME
  | UsageIPsecEndSystem
  | UsageIPsecTunnel
  | UsageIPsecUser
  | UsageTimestamping
  | UsageOCSPSigning
  | UsageMicrosoftSGC
  | UsageNetscapSGC

record CertificateSigningRequestSpec =
  Request :: bytes
  Groups :: "string list"
  Usages :: "KeyUsage list"

record CertificateSigningRequest =
  TypeMeta :: metav1_TypeMeta
  ObjectMeta :: metav1_ObjectMeta
  Spec :: CertificateSigningRequestSpec

subsection \<open>The standard library, as a parameter\<close>

text \<open>
  The library functions the package calls, with the shapes of their Go signatures:
  \<^verbatim>\<open>net.ParseIP\<close>, \<^verbatim>\<open>pem.Decode\<close> (the block found, if any, and the rest of the
  input), \<^verbatim>\<open>pem.EncodeToMemory\<close>, \<^verbatim>\<open>x509.MarshalPKCS1PrivateKey\<close>,
  \<^verbatim>\<open>x509.ParseCertificate\<close> and \<^verbatim>\<open>x509.CreateCertificateRequest\<close> (the only one
  that takes a random source).
\<close>

record stdlib =
  net_ParseIP :: "string \<Rightarrow> IP option"
  pem_Decode :: "bytes \<Rightarrow> pem_Block option \<times> bytes"
  pem_EncodeToMemory :: "pem_Block \<Rightarrow> bytes"
  x509_MarshalPKCS1PrivateKey :: "rsa_PrivateKey \<Rightarrow> bytes"
  x509_ParseCertificate :: "bytes \<Rightarrow> error + x509_Certificate"
  x509_CreateCertificateRequest ::
    "Reader \<Rightarrow> x509_CertificateRequest \<Rightarrow> rsa_PrivateKey \<Rightarrow> error + bytes"

subsection \<open>The functions of the package\<close>

definition TLSPrivateKeyToPem :: "stdlib \<Rightarrow> rsa_PrivateKey \<Rightarrow> bytes" where
  "TLSPrivateKeyToPem lib rsaKey =
     (let privateKey =
            \<lparr>Type = ''PRIVATE KEY'',
             Headers = Map.empty,
             Bytes = x509_MarshalPKCS1PrivateKey lib rsaKey\<rparr>
      in pem_EncodeToMemory lib privateKey)"

definition certificateRequestToPem :: "stdlib \<Rightarrow> bytes \<Rightarrow> bytes" where
  "certificateRequestToPem lib csrRaw =
     (let csrBlock =
            \<lparr>Type = ''CERTIFICATE REQUEST'',
             Headers = Map.empty,
             Bytes = csrRaw\<rparr>
      in pem_EncodeToMemory lib csrBlock)"

definition GenerateInClusterServiceName :: "TlsCertificateProps \<Rightarrow> string" where
  "GenerateInClusterServiceName props =
     Service props @ ''.'' @ Namespace props @ ''.svc''"

text \<open>
  Lines 57 to 83 of \<^verbatim>\<open>CertificateGenerateRequest\<close>: the request template handed to
  \<^verbatim>\<open>x509.CreateCertificateRequest\<close>. The three indexed writes are within the slice
  made with length 3.
\<close>

definition csrTemplate ::
  "stdlib \<Rightarrow> TlsCertificateProps \<Rightarrow> bool \<Rightarrow> x509_CertificateRequest" where
  "csrTemplate lib props fqdncn =
     (let dnsNames = replicate 3 '''';
          dnsNames = dnsNames[0 := Service props];
          dnsNames = dnsNames[1 := Service props @ ''.'' @ Namespace props];
          commonName = GenerateInClusterServiceName props;
          dnsNames = dnsNames[2 := commonName];
          csCommonName = (if fqdncn then commonName else Service props);
          ips = [];
          (ips, dnsNames) =
            (case net_ParseIP lib (ApiServerHost props) of
               Some apiServerIP \<Rightarrow> (ips @ [apiServerIP], dnsNames)
             | None \<Rightarrow> (ips, dnsNames @ [ApiServerHost props]))
      in \<lparr>Subject = \<lparr>CommonName = csCommonName\<rparr>,
          SignatureAlgorithm = SHA256WithRSA,
          DNSNames = dnsNames,
          IPAddresses = ips\<rparr>)"

text \<open>
  Lines 85 to 108: the call of \<^verbatim>\<open>x509.CreateCertificateRequest\<close> on the template, the
  early return of its error, and the object built around the PEM-framed request.
\<close>

definition CertificateGenerateRequest ::
  "stdlib \<Rightarrow> Reader \<Rightarrow> rsa_PrivateKey \<Rightarrow> TlsCertificateProps \<Rightarrow> bool
     \<Rightarrow> error + CertificateSigningRequest" where
  "CertificateGenerateRequest lib rand_Reader privateKey props fqdncn =
     (case x509_CreateCertificateRequest lib rand_Reader
             (csrTemplate lib props fqdncn) privateKey of
        Inl err \<Rightarrow> Inl err
      | Inr csrBytes \<Rightarrow>
          Inr \<lparr>TypeMeta =
                 \<lparr>Kind = ''CertificateSigningRequest'',
                  APIVersion = ''certificates.k8s.io/v1beta1''\<rparr>,
               ObjectMeta =
                 \<lparr>Name = Service props @ ''.'' @ Namespace props @ ''.cert-request''\<rparr>,
               Spec =
                 \<lparr>Request = certificateRequestToPem lib csrBytes,
                  Groups = [''system:masters'', ''system:authenticated''],
                  Usages =
                    [UsageDigitalSignature,
                     UsageKeyEncipherment,
                     UsageServerAuth,
                     UsageClientAuth]\<rparr>\<rparr>)"

definition tlsCertificateGetExpirationDate :: "stdlib \<Rightarrow> bytes \<Rightarrow> error + Time" where
  "tlsCertificateGetExpirationDate lib certData =
     (case fst (pem_Decode lib certData) of
        None \<Rightarrow> Inl (errors_New ''Failed to decode PEM'')
      | Some block \<Rightarrow>
          (case x509_ParseCertificate lib (Bytes block) of
             Inl err \<Rightarrow> Inl (errors_New (''Failed to parse certificate: %v'' @ Error err))
           | Inr cert \<Rightarrow> Inr (NotAfter cert)))"

definition timeReserveBeforeCertificateExpiration :: Duration where
  "timeReserveBeforeCertificateExpiration = Hour * 24 * 30 * 6"

text \<open>
  The pointer argument is an option (\<open>None\<close> is nil); the result of \<^verbatim>\<open>time.Now()\<close> is
  the argument \<open>now\<close>.
\<close>

definition IsTLSPairShouldBeUpdated :: "stdlib \<Rightarrow> Time \<Rightarrow> TlsPemPair option \<Rightarrow> bool" where
  "IsTLSPairShouldBeUpdated lib now tlsPair =
     (case tlsPair of
        None \<Rightarrow> True
      | Some pair \<Rightarrow>
          (case tlsCertificateGetExpirationDate lib (Certificate pair) of
             Inl err \<Rightarrow> True
           | Inr expirationDate \<Rightarrow>
               Time_Sub expirationDate now < timeReserveBeforeCertificateExpiration))"

section \<open>A fixture: one certificate, and the library's answers about it\<close>

text \<open>
  The theorems below hold for every \<open>stdlib\<close>. To run the package on concrete inputs
  the library has to answer on them, so this section records what Go's library returns on
  a handful of inputs, as a table, and nothing more: on every input outside the table the
  fixture reports a failure (no IP, no PEM block, no certificate), which is not meant as
  a description of the library there.

  The certificate is a self-signed ECDSA P-256 certificate for \<^verbatim>\<open>CN=webhook\<close>, valid
  from 2026-11-01 18:18:29 UTC to 2036-10-29 18:18:29 UTC (3650 days).
\<close>

definition sampleCertificateDER :: bytes where
  "sampleCertificateDER =
     [0x30, 0x82, 0x01, 0x78, 0x30, 0x82, 0x01, 0x1F, 0xA0, 0x03, 0x02, 0x01,
      0x02, 0x02, 0x14, 0x54, 0xCC, 0xE6, 0x75, 0x7A, 0xA8, 0x96, 0xDF, 0x40,
      0x44, 0x2D, 0x92, 0x11, 0x08, 0x96, 0x90, 0xC3, 0x1D, 0x02, 0xC8, 0x30,
      0x0A, 0x06, 0x08, 0x2A, 0x86, 0x48, 0xCE, 0x3D, 0x04, 0x03, 0x02, 0x30,
      0x12, 0x31, 0x10, 0x30, 0x0E, 0x06, 0x03, 0x55, 0x04, 0x03, 0x0C, 0x07,
      0x77, 0x65, 0x62, 0x68, 0x6F, 0x6F, 0x6B, 0x30, 0x1E, 0x17, 0x0D, 0x32,
      0x36, 0x31, 0x31, 0x30, 0x31, 0x31, 0x38, 0x31, 0x38, 0x32, 0x39, 0x5A,
      0x17, 0x0D, 0x33, 0x36, 0x31, 0x30, 0x32, 0x39, 0x31, 0x38, 0x31, 0x38,
      0x32, 0x39, 0x5A, 0x30, 0x12, 0x31, 0x10, 0x30, 0x0E, 0x06, 0x03, 0x55,
      0x04, 0x03, 0x0C, 0x07, 0x77, 0x65, 0x62, 0x68, 0x6F, 0x6F, 0x6B, 0x30,
      0x59, 0x30, 0x13, 0x06, 0x07, 0x2A, 0x86, 0x48, 0xCE, 0x3D, 0x02, 0x01,
      0x06, 0x08, 0x2A, 0x86, 0x48, 0xCE, 0x3D, 0x03, 0x01, 0x07, 0x03, 0x42,
      0x00, 0x04, 0x00, 0x2E, 0x4E, 0x89, 0x31, 0xD4, 0xFB, 0x58, 0xEF, 0x8A,
      0x7A, 0xC9, 0x49, 0xF5, 0x21, 0x11, 0xB7, 0x63, 0x7E, 0xD3, 0x1B, 0xC0,
      0xA6, 0x1F, 0x70, 0xA4, 0x66, 0x01, 0xFA, 0x98, 0x57, 0xC8, 0xAD, 0x92,
      0xA8, 0xF6, 0x78, 0xAC, 0xD4, 0x1B, 0xBA, 0x15, 0xA0, 0x43, 0x34, 0x70,
      0x71, 0xAB, 0x1F, 0x45, 0x74, 0xC3, 0x30, 0xC8, 0x14, 0xE6, 0x86, 0xD9,
      0xB7, 0x01, 0xA0, 0x97, 0x6B, 0xF9, 0xA3, 0x53, 0x30, 0x51, 0x30, 0x1D,
      0x06, 0x03, 0x55, 0x1D, 0x0E, 0x04, 0x16, 0x04, 0x14, 0x71, 0xF2, 0x90,
      0x6C, 0x74, 0xF2, 0x77, 0x8A, 0x76, 0x1B, 0x1E, 0xE0, 0xCF, 0x7B, 0x90,
      0x96, 0xA7, 0x37, 0x06, 0x5A, 0x30, 0x1F, 0x06, 0x03, 0x55, 0x1D, 0x23,
      0x04, 0x18, 0x30, 0x16, 0x80, 0x14, 0x71, 0xF2, 0x90, 0x6C, 0x74, 0xF2,
      0x77, 0x8A, 0x76, 0x1B, 0x1E, 0xE0, 0xCF, 0x7B, 0x90, 0x96, 0xA7, 0x37,
      0x06, 0x5A, 0x30, 0x0F, 0x06, 0x03, 0x55, 0x1D, 0x13, 0x01, 0x01, 0xFF,
      0x04, 0x05, 0x30, 0x03, 0x01, 0x01, 0xFF, 0x30, 0x0A, 0x06, 0x08, 0x2A,
      0x86, 0x48, 0xCE, 0x3D, 0x04, 0x03, 0x02, 0x03, 0x47, 0x00, 0x30, 0x44,
      0x02, 0x20, 0x50, 0x4C, 0xBA, 0xFD, 0x2E, 0xEE, 0xD5, 0xB1, 0x71, 0xA3,
      0x9C, 0x02, 0xC1, 0xEF, 0xF7, 0x89, 0x74, 0x2E, 0x2B, 0x94, 0x7A, 0xB4,
      0x29, 0xA4, 0x91, 0xCB, 0x22, 0x4B, 0x09, 0x93, 0x7E, 0x95, 0x02, 0x20,
      0x79, 0x6A, 0x76, 0xC5, 0x6C, 0x0A, 0x68, 0x06, 0x07, 0x7F, 0x0E, 0x65,
      0xF6, 0x59, 0x26, 0x46, 0xD3, 0xB4, 0xBE, 0xE7, 0x09, 0x37, 0x45, 0xA1,
      0x4A, 0x12, 0x7A, 0x5D, 0xD9, 0x4C, 0x2B, 0xF9]"

text \<open>The validity period of the certificate, in nanoseconds from the Unix epoch.\<close>

definition sampleNotBefore :: Time where
  "sampleNotBefore = 1793557109 * Second"

definition sampleNotAfter :: Time where
  "sampleNotAfter = 2108917109 * Second"

definition sampleCertificate :: x509_Certificate where
  "sampleCertificate = \<lparr>NotBefore = sampleNotBefore, NotAfter = sampleNotAfter\<rparr>"

text \<open>Go's conversion \<^verbatim>\<open>[]byte(s)\<close>, and a text file of lines ending in a line feed.\<close>

definition bytes_of_string :: "string \<Rightarrow> bytes" where
  "bytes_of_string s = map (\<lambda>c. of_nat (of_char c)) s"

definition text_lines :: "string list \<Rightarrow> bytes" where
  "text_lines ls = bytes_of_string (concat (map (\<lambda>l. l @ [CHR 0x0A]) ls))"

text \<open>The certificate in PEM framing, under the type label given.\<close>

definition sampleCertificatePEM :: "string \<Rightarrow> bytes" where
  "sampleCertificatePEM label =
     text_lines
      [''-----BEGIN '' @ label @ ''-----'',
       ''MIIBeDCCAR+gAwIBAgIUVMzmdXqolt9ARC2SEQiWkMMdAsgwCgYIKoZIzj0EAwIw'',
       ''EjEQMA4GA1UEAwwHd2ViaG9vazAeFw0yNjExMDExODE4MjlaFw0zNjEwMjkxODE4'',
       ''MjlaMBIxEDAOBgNVBAMMB3dlYmhvb2swWTATBgcqhkjOPQIBBggqhkjOPQMBBwNC'',
       ''AAQALk6JMdT7WO+KeslJ9SERt2N+0xvAph9wpGYB+phXyK2SqPZ4rNQbuhWgQzRw'',
       ''casfRXTDMMgU5obZtwGgl2v5o1MwUTAdBgNVHQ4EFgQUcfKQbHTyd4p2Gx7gz3uQ'',
       ''lqc3BlowHwYDVR0jBBgwFoAUcfKQbHTyd4p2Gx7gz3uQlqc3BlowDwYDVR0TAQH/'',
       ''BAUwAwEB/zAKBggqhkjOPQQDAgNHADBEAiBQTLr9Lu7VsXGjnALB7/eJdC4rlHq0'',
       ''KaSRyyJLCZN+lQIgeWp2xWwKaAYHfw5l9lkmRtO0vucJN0WhShJ6XdlMK/k='',
       ''-----END '' @ label @ ''-----'']"

text \<open>A PEM block of type \<^verbatim>\<open>CERTIFICATE\<close> whose payload, three zero bytes, is no
  certificate; and bytes that hold no PEM block at all.\<close>

definition brokenCertificatePEM :: bytes where
  "brokenCertificatePEM =
     text_lines [''-----BEGIN CERTIFICATE-----'', ''AAAA'', ''-----END CERTIFICATE-----'']"

definition notPEM :: bytes where
  "notPEM = bytes_of_string ''not valid pem''"

text \<open>\<^verbatim>\<open>net.IPv4\<close>: the address in its 16-byte form.\<close>

definition IPv4 :: "8 word \<Rightarrow> 8 word \<Rightarrow> 8 word \<Rightarrow> 8 word \<Rightarrow> IP" where
  "IPv4 a b c d = [0, 0, 0, 0, 0, 0, 0, 0, 0, 0, 0xff, 0xff, a, b, c, d]"

text \<open>
  The table. \<^verbatim>\<open>net.ParseIP\<close> accepts \<^verbatim>\<open>10.0.0.1\<close>; the host names used below are
  no IP literals. \<^verbatim>\<open>pem.Decode\<close> finds the block of the three PEM inputs above, of the
  type their first line names, and none in \<open>notPEM\<close>. \<^verbatim>\<open>x509.ParseCertificate\<close>
  accepts the certificate and rejects the three zero bytes. The three encoding
  functions are stand-ins, not the library's encodings: the package only passes their
  output on, and no theorem depends on what the bytes are.
\<close>

definition fixture_ParseIP :: "string \<Rightarrow> IP option" where
  "fixture_ParseIP s = (if s = ''10.0.0.1'' then Some (IPv4 10 0 0 1) else None)"

definition fixture_Decode :: "bytes \<Rightarrow> pem_Block option \<times> bytes" where
  "fixture_Decode data =
     (if data = sampleCertificatePEM ''CERTIFICATE'' then
        (Some \<lparr>Type = ''CERTIFICATE'', Headers = Map.empty,
               Bytes = sampleCertificateDER\<rparr>, [])
      else if data = sampleCertificatePEM ''X509 CERTIFICATE'' then
        (Some \<lparr>Type = ''X509 CERTIFICATE'', Headers = Map.empty,
               Bytes = sampleCertificateDER\<rparr>, [])
      else if data = brokenCertificatePEM then
        (Some \<lparr>Type = ''CERTIFICATE'', Headers = Map.empty, Bytes = [0, 0, 0]\<rparr>, [])
      else (None, data))"

definition fixture_ParseCertificate :: "bytes \<Rightarrow> error + x509_Certificate" where
  "fixture_ParseCertificate der =
     (if der = sampleCertificateDER then Inr sampleCertificate
      else Inl (errorString ''x509: malformed certificate''))"

definition fixture :: stdlib where
  "fixture =
     \<lparr>net_ParseIP = fixture_ParseIP,
      pem_Decode = fixture_Decode,
      pem_EncodeToMemory = (\<lambda>block. bytes_of_string (Type block) @ Bytes block),
      x509_MarshalPKCS1PrivateKey = (\<lambda>key. []),
      x509_ParseCertificate = fixture_ParseCertificate,
      x509_CreateCertificateRequest = (\<lambda>rand template key. Inr [])\<rparr>"

text \<open>A key and a random source for the calls that need one. Textbook numbers stand
  for a 2048-bit key: the package never looks inside a key.\<close>

definition sampleKey :: rsa_PrivateKey where
  "sampleKey =
     \<lparr>PublicKey = \<lparr>modulusN = 3233, exponentE = 17\<rparr>,
      exponentD = 2753,
      Primes = [61, 53]\<rparr>"

definition zeroReader :: Reader where
  "zeroReader = (\<lambda>i. 0)"

text \<open>
  A library with an expectation, as a test double has one: it answers as the fixture
  does, except that its \<^verbatim>\<open>x509.CreateCertificateRequest\<close> accepts the one template
  given and refuses every other. A call of \<open>CertificateGenerateRequest\<close> that succeeds
  with this library has handed over exactly that template.
\<close>

definition expecting :: "x509_CertificateRequest \<Rightarrow> stdlib" where
  "expecting expected =
     fixture
       \<lparr>x509_CreateCertificateRequest :=
          (\<lambda>rand template key.
             if template = expected then Inr []
             else Inl (errorString ''unexpected template''))\<rparr>"

section \<open>Properties\<close>

lemma csrTemplate_DNSNames:
  "DNSNames (csrTemplate lib props fqdncn) =
     [Service props,
      Service props @ ''.'' @ Namespace props,
      Service props @ ''.'' @ Namespace props @ ''.svc'']
     @ (case net_ParseIP lib (ApiServerHost props) of
          Some ip \<Rightarrow> [] | None \<Rightarrow> [ApiServerHost props])"
  by (simp add: csrTemplate_def GenerateInClusterServiceName_def Let_def numeral_3_eq_3
      split: option.split)

lemma csrTemplate_IPAddresses:
  "IPAddresses (csrTemplate lib props fqdncn) =
     (case net_ParseIP lib (ApiServerHost props) of
        Some ip \<Rightarrow> [ip] | None \<Rightarrow> [])"
  by (simp add: csrTemplate_def Let_def split: option.split)

lemma csrTemplate_CommonName:
  "CommonName (Subject (csrTemplate lib props fqdncn)) =
     (if fqdncn then GenerateInClusterServiceName props else Service props)"
  by (simp add: csrTemplate_def Let_def split: option.split)

lemma timeReserve_value:
  "timeReserveBeforeCertificateExpiration = 15552000000000000"
  by (simp add: timeReserveBeforeCertificateExpiration_def Hour_def Minute_def Second_def
      Millisecond_def Microsecond_def Nanosecond_def)

lemma day_value: "24 * Hour = 86400000000000"
  by (simp add: Hour_def Minute_def Second_def Millisecond_def Microsecond_def
      Nanosecond_def)

text \<open>Saturation of \<^verbatim>\<open>Time.Sub\<close> does not change the comparison with the reserve.\<close>

lemma Time_Sub_less_reserve:
  "(Time_Sub t u < timeReserveBeforeCertificateExpiration) =
     (t - u < timeReserveBeforeCertificateExpiration)"
  by (simp add: Time_Sub_def Let_def minDuration_def maxDuration_def timeReserve_value)

lemma IsTLSPairShouldBeUpdated_Some:
  "IsTLSPairShouldBeUpdated lib now (Some pair) =
     (case fst (pem_Decode lib (Certificate pair)) of
        None \<Rightarrow> True
      | Some block \<Rightarrow>
          (case x509_ParseCertificate lib (Bytes block) of
             Inl err \<Rightarrow> True
           | Inr cert \<Rightarrow> NotAfter cert - now < timeReserveBeforeCertificateExpiration))"
  by (simp add: IsTLSPairShouldBeUpdated_def tlsCertificateGetExpirationDate_def
      Time_Sub_less_reserve split: option.split sum.split)

subsection \<open>The fixture, evaluated\<close>

lemma sample_labels_differ:
  "sampleCertificatePEM ''X509 CERTIFICATE'' \<noteq> sampleCertificatePEM ''CERTIFICATE''"
  by (simp add: sampleCertificatePEM_def text_lines_def bytes_of_string_def)

lemma broken_differs:
  "brokenCertificatePEM \<noteq> sampleCertificatePEM ''CERTIFICATE''"
  "brokenCertificatePEM \<noteq> sampleCertificatePEM ''X509 CERTIFICATE''"
  by (simp_all add: sampleCertificatePEM_def brokenCertificatePEM_def text_lines_def
      bytes_of_string_def)

lemma notPEM_differs:
  "notPEM \<noteq> sampleCertificatePEM ''CERTIFICATE''"
  "notPEM \<noteq> sampleCertificatePEM ''X509 CERTIFICATE''"
  "notPEM \<noteq> brokenCertificatePEM"
  by (simp_all add: sampleCertificatePEM_def brokenCertificatePEM_def notPEM_def
      text_lines_def bytes_of_string_def)

lemma zeros_no_certificate: "[0, 0, 0] \<noteq> sampleCertificateDER"
  by (simp add: sampleCertificateDER_def)

lemma fixture_Decode_sample:
  "pem_Decode fixture (sampleCertificatePEM ''CERTIFICATE'') =
     (Some \<lparr>Type = ''CERTIFICATE'', Headers = Map.empty, Bytes = sampleCertificateDER\<rparr>, [])"
  by (simp add: fixture_def fixture_Decode_def)

lemma fixture_Decode_sample_X509:
  "pem_Decode fixture (sampleCertificatePEM ''X509 CERTIFICATE'') =
     (Some \<lparr>Type = ''X509 CERTIFICATE'', Headers = Map.empty,
            Bytes = sampleCertificateDER\<rparr>, [])"
  by (simp add: fixture_def fixture_Decode_def sample_labels_differ)

lemma fixture_Decode_broken:
  "pem_Decode fixture brokenCertificatePEM =
     (Some \<lparr>Type = ''CERTIFICATE'', Headers = Map.empty, Bytes = [0, 0, 0]\<rparr>, [])"
  by (simp add: fixture_def fixture_Decode_def broken_differs)

lemma fixture_Decode_notPEM:
  "pem_Decode fixture notPEM = (None, notPEM)"
  by (simp add: fixture_def fixture_Decode_def notPEM_differs)

lemma fixture_ParseCertificate_sample:
  "x509_ParseCertificate fixture sampleCertificateDER = Inr sampleCertificate"
  by (simp add: fixture_def fixture_ParseCertificate_def)

lemma fixture_ParseCertificate_zeros:
  "x509_ParseCertificate fixture [0, 0, 0] = Inl (errorString ''x509: malformed certificate'')"
  by (simp add: fixture_def fixture_ParseCertificate_def zeros_no_certificate)

lemma fixture_ParseIP_values:
  "net_ParseIP fixture ''10.0.0.1'' = Some (IPv4 10 0 0 1)"
  "net_ParseIP fixture ''kubernetes.default.svc'' = None"
  by (simp_all add: fixture_def fixture_ParseIP_def)

subsection \<open>Subject alternative names and common name of the request\<close>

lemma csrTemplate_fields:
  "csrTemplate lib props fqdncn =
     \<lparr>Subject =
        \<lparr>CommonName =
           (if fqdncn then Service props @ ''.'' @ Namespace props @ ''.svc''
            else Service props)\<rparr>,
      SignatureAlgorithm = SHA256WithRSA,
      DNSNames =
        [Service props,
         Service props @ ''.'' @ Namespace props,
         Service props @ ''.'' @ Namespace props @ ''.svc'']
        @ (case net_ParseIP lib (ApiServerHost props) of
             Some ip \<Rightarrow> [] | None \<Rightarrow> [ApiServerHost props]),
      IPAddresses =
        (case net_ParseIP lib (ApiServerHost props) of
           Some ip \<Rightarrow> [ip] | None \<Rightarrow> [])\<rparr>"
  by (simp add: csrTemplate_def GenerateInClusterServiceName_def Let_def numeral_3_eq_3
      split: option.split)

lemma expecting_ParseIP:
  "net_ParseIP (expecting expected) ''10.0.0.1'' = Some (IPv4 10 0 0 1)"
  "net_ParseIP (expecting expected) ''kubernetes.default.svc'' = None"
  by (simp_all add: expecting_def fixture_def fixture_ParseIP_def)

lemma expecting_CreateCertificateRequest:
  "x509_CreateCertificateRequest (expecting expected) rand template key =
     (if template = expected then Inr [] else Inl (errorString ''unexpected template''))"
  by (simp add: expecting_def)

lemma expecting_certificateRequestToPem:
  "certificateRequestToPem (expecting expected) csrRaw =
     certificateRequestToPem fixture csrRaw"
  by (simp add: certificateRequestToPem_def expecting_def)

text \<open>
  C1, as the code has it. \<open>CertificateGenerateRequest\<close> hands the template
  \<open>csrTemplate\<close> to \<^verbatim>\<open>x509.CreateCertificateRequest\<close> and returns that call's error or
  the PEM framing of its bytes. In this request: if \<open>ApiServerHost\<close> is an IP literal
  (\<^verbatim>\<open>net.ParseIP\<close> accepts it), the parsed address is the one IP SAN and the host is not
  appended to the DNS SANs, which are exactly the three service names; so the host is
  among the DNS SANs only when it is equal to one of these three names. If it is not an
  IP literal, it is appended to the DNS SANs after the three service names and there is
  no IP SAN.
\<close>

theorem C1_host_goes_to_one_san_list:
  "map_sum id (\<lambda>csr. Request (Spec csr))
     (CertificateGenerateRequest lib rand_Reader privateKey props fqdncn) =
   map_sum id (certificateRequestToPem lib)
     (x509_CreateCertificateRequest lib rand_Reader
        (csrTemplate lib props fqdncn) privateKey) \<and>
   (\<forall>ip. net_ParseIP lib (ApiServerHost props) = Some ip \<longrightarrow>
      IPAddresses (csrTemplate lib props fqdncn) = [ip] \<and>
      DNSNames (csrTemplate lib props fqdncn) =
        [Service props,
         Service props @ ''.'' @ Namespace props,
         Service props @ ''.'' @ Namespace props @ ''.svc''] \<and>
      (ApiServerHost props \<in> set (DNSNames (csrTemplate lib props fqdncn))) =
        (ApiServerHost props \<in>
           {Service props,
            Service props @ ''.'' @ Namespace props,
            Service props @ ''.'' @ Namespace props @ ''.svc''})) \<and>
   (net_ParseIP lib (ApiServerHost props) = None \<longrightarrow>
      DNSNames (csrTemplate lib props fqdncn) =
        [Service props,
         Service props @ ''.'' @ Namespace props,
         Service props @ ''.'' @ Namespace props @ ''.svc'',
         ApiServerHost props] \<and>
      IPAddresses (csrTemplate lib props fqdncn) = [])"
  by (simp add: CertificateGenerateRequest_def csrTemplate_DNSNames
      csrTemplate_IPAddresses split: sum.split)

text \<open>
  The builder succeeds with the library that accepts only the template written out:
  for the host \<^verbatim>\<open>10.0.0.1\<close>, the one with this address as its IP SAN and the three
  service names as its DNS SANs; for the host \<^verbatim>\<open>kubernetes.default.svc\<close>, the one with
  no IP SAN and the host as the fourth DNS SAN.
\<close>

theorem C1_witness:
  "net_ParseIP fixture ''10.0.0.1'' = Some (IPv4 10 0 0 1) \<and>
   map_sum id (\<lambda>csr. Request (Spec csr))
     (CertificateGenerateRequest
        (expecting
           \<lparr>Subject = \<lparr>CommonName = ''webhook''\<rparr>,
            SignatureAlgorithm = SHA256WithRSA,
            DNSNames = [''webhook'', ''webhook.kube-system'', ''webhook.kube-system.svc''],
            IPAddresses = [IPv4 10 0 0 1]\<rparr>)
        zeroReader sampleKey
        \<lparr>Service = ''webhook'', Namespace = ''kube-system'',
         ApiServerHost = ''10.0.0.1''\<rparr> False) =
     Inr (certificateRequestToPem fixture []) \<and>
   net_ParseIP fixture ''kubernetes.default.svc'' = None \<and>
   map_sum id (\<lambda>csr. Request (Spec csr))
     (CertificateGenerateRequest
        (expecting
           \<lparr>Subject = \<lparr>CommonName = ''webhook''\<rparr>,
            SignatureAlgorithm = SHA256WithRSA,
            DNSNames =
              [''webhook'', ''webhook.kube-system'', ''webhook.kube-system.svc'',
               ''kubernetes.default.svc''],
            IPAddresses = []\<rparr>)
        zeroReader sampleKey
        \<lparr>Service = ''webhook'', Namespace = ''kube-system'',
         ApiServerHost = ''kubernetes.default.svc''\<rparr> False) =
     Inr (certificateRequestToPem fixture [])"
proof -
  let ?with_ip =
    "\<lparr>Subject = \<lparr>CommonName = ''webhook''\<rparr>,
      SignatureAlgorithm = SHA256WithRSA,
      DNSNames = [''webhook'', ''webhook.kube-system'', ''webhook.kube-system.svc''],
      IPAddresses = [IPv4 10 0 0 1]\<rparr>"
  let ?with_name =
    "\<lparr>Subject = \<lparr>CommonName = ''webhook''\<rparr>,
      SignatureAlgorithm = SHA256WithRSA,
      DNSNames =
        [''webhook'', ''webhook.kube-system'', ''webhook.kube-system.svc'',
         ''kubernetes.default.svc''],
      IPAddresses = []\<rparr>"
  have built_ip:
    "csrTemplate (expecting ?with_ip)
       \<lparr>Service = ''webhook'', Namespace = ''kube-system'',
        ApiServerHost = ''10.0.0.1''\<rparr> False = ?with_ip"
    by (simp add: csrTemplate_fields expecting_ParseIP)
  have built_name:
    "csrTemplate (expecting ?with_name)
       \<lparr>Service = ''webhook'', Namespace = ''kube-system'',
        ApiServerHost = ''kubernetes.default.svc''\<rparr> False = ?with_name"
    by (simp add: csrTemplate_fields expecting_ParseIP)
  show ?thesis
    using
      C1_host_goes_to_one_san_list [where lib = "expecting ?with_ip"
        and rand_Reader = zeroReader and privateKey = sampleKey
        and props = "\<lparr>Service = ''webhook'', Namespace = ''kube-system'',
                      ApiServerHost = ''10.0.0.1''\<rparr>"
        and fqdncn = False]
      C1_host_goes_to_one_san_list [where lib = "expecting ?with_name"
        and rand_Reader = zeroReader and privateKey = sampleKey
        and props = "\<lparr>Service = ''webhook'', Namespace = ''kube-system'',
                      ApiServerHost = ''kubernetes.default.svc''\<rparr>"
        and fqdncn = False]
    by (simp add: built_ip built_name expecting_CreateCertificateRequest
        expecting_certificateRequestToPem fixture_ParseIP_values)
qed

text \<open>
  C1 as it is stated fails for an identity whose service name is itself the IP literal
  of the API server: \<^verbatim>\<open>10.0.0.1\<close> is a valid IPv4 literal, and
  \<open>CertificateGenerateRequest\<close> succeeds with the library that accepts only the
  template in which this literal is the IP SAN and also the first of the DNS SANs, as the
  service name.
\<close>

theorem C1_counterexample:
  "net_ParseIP fixture
     (ApiServerHost \<lparr>Service = ''10.0.0.1'', Namespace = ''kube-system'',
                     ApiServerHost = ''10.0.0.1''\<rparr>) \<noteq> None \<and>
   map_sum id (\<lambda>csr. Request (Spec csr))
     (CertificateGenerateRequest
        (expecting
           \<lparr>Subject = \<lparr>CommonName = ''10.0.0.1''\<rparr>,
            SignatureAlgorithm = SHA256WithRSA,
            DNSNames =
              [''10.0.0.1'', ''10.0.0.1.kube-system'', ''10.0.0.1.kube-system.svc''],
            IPAddresses = [IPv4 10 0 0 1]\<rparr>)
        zeroReader sampleKey
        \<lparr>Service = ''10.0.0.1'', Namespace = ''kube-system'',
         ApiServerHost = ''10.0.0.1''\<rparr> False) =
     Inr (certificateRequestToPem fixture []) \<and>
   ApiServerHost \<lparr>Service = ''10.0.0.1'', Namespace = ''kube-system'',
                  ApiServerHost = ''10.0.0.1''\<rparr>
     \<in> set (DNSNames
              \<lparr>Subject = \<lparr>CommonName = ''10.0.0.1''\<rparr>,
               SignatureAlgorithm = SHA256WithRSA,
               DNSNames =
                 [''10.0.0.1'', ''10.0.0.1.kube-system'', ''10.0.0.1.kube-system.svc''],
               IPAddresses = [IPv4 10 0 0 1]\<rparr>) \<and>
   ApiServerHost \<lparr>Service = ''10.0.0.1'', Namespace = ''kube-system'',
                  ApiServerHost = ''10.0.0.1''\<rparr>
     \<in> set (DNSNames
              (csrTemplate fixture
                 \<lparr>Service = ''10.0.0.1'', Namespace = ''kube-system'',
                  ApiServerHost = ''10.0.0.1''\<rparr> False))"
  by (simp add: CertificateGenerateRequest_def csrTemplate_fields expecting_ParseIP
      expecting_CreateCertificateRequest expecting_certificateRequestToPem
      fixture_ParseIP_values)

text \<open>
  C4. \<open>CertificateGenerateRequest\<close> hands the template \<open>csrTemplate\<close> to
  \<^verbatim>\<open>x509.CreateCertificateRequest\<close> and returns that call's error or the PEM framing
  of its bytes; the DNS SANs of this request contain the service name, the service name
  qualified by the namespace, and the in-cluster name ending in \<^verbatim>\<open>.svc\<close>. This holds
  for every identity, those with a non-empty service and namespace among them.
\<close>

theorem C4_dns_sans_contain_service_names:
  "map_sum id (\<lambda>csr. Request (Spec csr))
     (CertificateGenerateRequest lib rand_Reader privateKey props fqdncn) =
   map_sum id (certificateRequestToPem lib)
     (x509_CreateCertificateRequest lib rand_Reader
        (csrTemplate lib props fqdncn) privateKey) \<and>
   Service props \<in> set (DNSNames (csrTemplate lib props fqdncn)) \<and>
   Service props @ ''.'' @ Namespace props
     \<in> set (DNSNames (csrTemplate lib props fqdncn)) \<and>
   Service props @ ''.'' @ Namespace props @ ''.svc''
     \<in> set (DNSNames (csrTemplate lib props fqdncn)) \<and>
   GenerateInClusterServiceName props
     \<in> set (DNSNames (csrTemplate lib props fqdncn))"
  by (simp add: CertificateGenerateRequest_def csrTemplate_DNSNames
      GenerateInClusterServiceName_def split: sum.split)

theorem C4_witness:
  "map_sum id (\<lambda>csr. Request (Spec csr))
     (CertificateGenerateRequest
        (expecting
           \<lparr>Subject = \<lparr>CommonName = ''webhook.kube-system.svc''\<rparr>,
            SignatureAlgorithm = SHA256WithRSA,
            DNSNames = [''webhook'', ''webhook.kube-system'', ''webhook.kube-system.svc''],
            IPAddresses = [IPv4 10 0 0 1]\<rparr>)
        zeroReader sampleKey
        \<lparr>Service = ''webhook'', Namespace = ''kube-system'',
         ApiServerHost = ''10.0.0.1''\<rparr> True) =
     Inr (certificateRequestToPem fixture []) \<and>
   {''webhook'', ''webhook.kube-system'', ''webhook.kube-system.svc''}
     \<subseteq> set (DNSNames
               (csrTemplate fixture
                  \<lparr>Service = ''webhook'', Namespace = ''kube-system'',
                   ApiServerHost = ''10.0.0.1''\<rparr> True))"
proof -
  let ?expected =
    "\<lparr>Subject = \<lparr>CommonName = ''webhook.kube-system.svc''\<rparr>,
      SignatureAlgorithm = SHA256WithRSA,
      DNSNames = [''webhook'', ''webhook.kube-system'', ''webhook.kube-system.svc''],
      IPAddresses = [IPv4 10 0 0 1]\<rparr>"
  let ?props =
    "\<lparr>Service = ''webhook'', Namespace = ''kube-system'', ApiServerHost = ''10.0.0.1''\<rparr>"
  have built: "csrTemplate (expecting ?expected) ?props True = ?expected"
    by (simp add: csrTemplate_fields expecting_ParseIP)
  show ?thesis
    using
      C4_dns_sans_contain_service_names [where lib = "expecting ?expected"
        and rand_Reader = zeroReader and privateKey = sampleKey and props = ?props
        and fqdncn = True]
      C4_dns_sans_contain_service_names [where lib = fixture
        and rand_Reader = zeroReader and privateKey = sampleKey and props = ?props
        and fqdncn = True]
    by (simp add: built expecting_CreateCertificateRequest
        expecting_certificateRequestToPem)
qed

text \<open>
  C5. \<open>CertificateGenerateRequest\<close> hands the template \<open>csrTemplate\<close> to
  \<^verbatim>\<open>x509.CreateCertificateRequest\<close> and returns that call's error or the PEM framing
  of its bytes; the subject common name of this request is the service name when
  \<open>fqdncn\<close> is false, and the in-cluster name \<open>service.namespace.svc\<close> when it is true.
  The key is passed to the library beside the template and plays no part in the name.
\<close>

theorem C5_common_name:
  "map_sum id (\<lambda>csr. Request (Spec csr))
     (CertificateGenerateRequest lib rand_Reader privateKey props fqdncn) =
   map_sum id (certificateRequestToPem lib)
     (x509_CreateCertificateRequest lib rand_Reader
        (csrTemplate lib props fqdncn) privateKey) \<and>
   CommonName (Subject (csrTemplate lib props fqdncn)) =
     (if fqdncn then Service props @ ''.'' @ Namespace props @ ''.svc''
      else Service props) \<and>
   CommonName (Subject (csrTemplate lib props False)) = Service props \<and>
   CommonName (Subject (csrTemplate lib props True)) =
     Service props @ ''.'' @ Namespace props @ ''.svc''"
  by (simp add: CertificateGenerateRequest_def csrTemplate_CommonName
      GenerateInClusterServiceName_def split: sum.split)

theorem C5_witness:
  "map_sum id (\<lambda>csr. Request (Spec csr))
     (CertificateGenerateRequest
        (expecting
           \<lparr>Subject = \<lparr>CommonName = ''webhook''\<rparr>,
            SignatureAlgorithm = SHA256WithRSA,
            DNSNames = [''webhook'', ''webhook.kube-system'', ''webhook.kube-system.svc''],
            IPAddresses = [IPv4 10 0 0 1]\<rparr>)
        zeroReader sampleKey
        \<lparr>Service = ''webhook'', Namespace = ''kube-system'',
         ApiServerHost = ''10.0.0.1''\<rparr> False) =
     Inr (certificateRequestToPem fixture []) \<and>
   map_sum id (\<lambda>csr. Request (Spec csr))
     (CertificateGenerateRequest
        (expecting
           \<lparr>Subject = \<lparr>CommonName = ''webhook.kube-system.svc''\<rparr>,
            SignatureAlgorithm = SHA256WithRSA,
            DNSNames = [''webhook'', ''webhook.kube-system'', ''webhook.kube-system.svc''],
            IPAddresses = [IPv4 10 0 0 1]\<rparr>)
        zeroReader sampleKey
        \<lparr>Service = ''webhook'', Namespace = ''kube-system'',
         ApiServerHost = ''10.0.0.1''\<rparr> True) =
     Inr (certificateRequestToPem fixture []) \<and>
   CommonName
     (Subject
        (csrTemplate fixture
           \<lparr>Service = ''webhook'', Namespace = ''kube-system'',
            ApiServerHost = ''10.0.0.1''\<rparr> False)) = ''webhook'' \<and>
   CommonName
     (Subject
        (csrTemplate fixture
           \<lparr>Service = ''webhook'', Namespace = ''kube-system'',
            ApiServerHost = ''10.0.0.1''\<rparr> True)) = ''webhook.kube-system.svc''"
proof -
  let ?short =
    "\<lparr>Subject = \<lparr>CommonName = ''webhook''\<rparr>,
      SignatureAlgorithm = SHA256WithRSA,
      DNSNames = [''webhook'', ''webhook.kube-system'', ''webhook.kube-system.svc''],
      IPAddresses = [IPv4 10 0 0 1]\<rparr>"
  let ?fqdn =
    "\<lparr>Subject = \<lparr>CommonName = ''webhook.kube-system.svc''\<rparr>,
      SignatureAlgorithm = SHA256WithRSA,
      DNSNames = [''webhook'', ''webhook.kube-system'', ''webhook.kube-system.svc''],
      IPAddresses = [IPv4 10 0 0 1]\<rparr>"
  let ?props =
    "\<lparr>Service = ''webhook'', Namespace = ''kube-system'', ApiServerHost = ''10.0.0.1''\<rparr>"
  have built_short: "csrTemplate (expecting ?short) ?props False = ?short"
    by (simp add: csrTemplate_fields expecting_ParseIP)
  have built_fqdn: "csrTemplate (expecting ?fqdn) ?props True = ?fqdn"
    by (simp add: csrTemplate_fields expecting_ParseIP)
  show ?thesis
    using
      C5_common_name [where lib = "expecting ?short" and rand_Reader = zeroReader
        and privateKey = sampleKey and props = ?props and fqdncn = False]
      C5_common_name [where lib = "expecting ?fqdn" and rand_Reader = zeroReader
        and privateKey = sampleKey and props = ?props and fqdncn = True]
      C5_common_name [where lib = fixture and rand_Reader = zeroReader
        and privateKey = sampleKey and props = ?props and fqdncn = False]
    by (simp add: built_short built_fqdn expecting_CreateCertificateRequest
        expecting_certificateRequestToPem)
qed

subsection \<open>The renewal decision\<close>

text \<open>
  C2. For a pair whose certificate decodes and parses to a certificate with expiry
  \<open>NotAfter cert\<close>, and for every current time \<open>now\<close>, the decision is true exactly
  when \<open>NotAfter cert - now\<close> is less than the reserve, and the reserve is exactly 180
  days: with 179 days remaining the decision is true, with 181 days remaining it is
  false.
\<close>

theorem C2_rotation_threshold:
  assumes "fst (pem_Decode lib (Certificate pair)) = Some block"
    and "x509_ParseCertificate lib (Bytes block) = Inr cert"
  shows "IsTLSPairShouldBeUpdated lib now (Some pair) =
           (NotAfter cert - now < timeReserveBeforeCertificateExpiration) \<and>
         timeReserveBeforeCertificateExpiration = 180 * (24 * Hour) \<and>
         (NotAfter cert - now = 179 * (24 * Hour) \<longrightarrow>
            IsTLSPairShouldBeUpdated lib now (Some pair)) \<and>
         (NotAfter cert - now = 181 * (24 * Hour) \<longrightarrow>
            \<not> IsTLSPairShouldBeUpdated lib now (Some pair))"
  using assms
  by (simp add: IsTLSPairShouldBeUpdated_Some timeReserve_value day_value)

theorem C2_witness:
  "IsTLSPairShouldBeUpdated fixture (sampleNotAfter - 179 * (24 * Hour))
     (Some \<lparr>Certificate = sampleCertificatePEM ''CERTIFICATE'', PrivateKey = []\<rparr>) \<and>
   \<not> IsTLSPairShouldBeUpdated fixture (sampleNotAfter - 180 * (24 * Hour))
     (Some \<lparr>Certificate = sampleCertificatePEM ''CERTIFICATE'', PrivateKey = []\<rparr>) \<and>
   \<not> IsTLSPairShouldBeUpdated fixture (sampleNotAfter - 181 * (24 * Hour))
     (Some \<lparr>Certificate = sampleCertificatePEM ''CERTIFICATE'', PrivateKey = []\<rparr>)"
proof -
  let ?pair = "\<lparr>Certificate = sampleCertificatePEM ''CERTIFICATE'', PrivateKey = []\<rparr>"
  let ?block =
    "\<lparr>Type = ''CERTIFICATE'', Headers = Map.empty, Bytes = sampleCertificateDER\<rparr>"
  have decoded: "fst (pem_Decode fixture (Certificate ?pair)) = Some ?block"
    by (simp add: fixture_Decode_sample)
  have parsed: "x509_ParseCertificate fixture (Bytes ?block) = Inr sampleCertificate"
    by (simp add: fixture_ParseCertificate_sample)
  show ?thesis
    using C2_rotation_threshold [OF decoded parsed, of "sampleNotAfter - 179 * (24 * Hour)"]
      C2_rotation_threshold [OF decoded parsed, of "sampleNotAfter - 180 * (24 * Hour)"]
      C2_rotation_threshold [OF decoded parsed, of "sampleNotAfter - 181 * (24 * Hour)"]
    by (simp add: sampleCertificate_def day_value)
qed

text \<open>
  C3. The decision is true for a nil pair, for a pair whose certificate bytes hold no PEM
  block, and for a pair whose PEM block does not parse as a certificate. The error that
  \<open>tlsCertificateGetExpirationDate\<close> returns in the last two cases never leaves
  \<open>IsTLSPairShouldBeUpdated\<close>, whose result is a boolean: it becomes the answer true.
\<close>

theorem C3_failures_mean_rotate:
  "IsTLSPairShouldBeUpdated lib now None \<and>
   (fst (pem_Decode lib (Certificate pair)) = None \<longrightarrow>
      tlsCertificateGetExpirationDate lib (Certificate pair) =
        Inl (errors_New ''Failed to decode PEM'') \<and>
      IsTLSPairShouldBeUpdated lib now (Some pair)) \<and>
   (\<forall>block err.
      fst (pem_Decode lib (Certificate pair)) = Some block \<and>
      x509_ParseCertificate lib (Bytes block) = Inl err \<longrightarrow>
      tlsCertificateGetExpirationDate lib (Certificate pair) =
        Inl (errors_New (''Failed to parse certificate: %v'' @ Error err)) \<and>
      IsTLSPairShouldBeUpdated lib now (Some pair)) \<and>
   (\<forall>err.
      tlsCertificateGetExpirationDate lib (Certificate pair) = Inl err \<longrightarrow>
      IsTLSPairShouldBeUpdated lib now (Some pair))"
  by (simp add: IsTLSPairShouldBeUpdated_def tlsCertificateGetExpirationDate_def)

theorem C3_witness:
  "IsTLSPairShouldBeUpdated fixture sampleNotBefore None \<and>
   fst (pem_Decode fixture notPEM) = None \<and>
   IsTLSPairShouldBeUpdated fixture sampleNotBefore
     (Some \<lparr>Certificate = notPEM, PrivateKey = []\<rparr>) \<and>
   x509_ParseCertificate fixture [0, 0, 0] =
     Inl (errorString ''x509: malformed certificate'') \<and>
   tlsCertificateGetExpirationDate fixture brokenCertificatePEM =
     Inl (errorString ''Failed to parse certificate: %vx509: malformed certificate'') \<and>
   IsTLSPairShouldBeUpdated fixture sampleNotBefore
     (Some \<lparr>Certificate = brokenCertificatePEM, PrivateKey = []\<rparr>)"
  using
    C3_failures_mean_rotate [of fixture sampleNotBefore
      "\<lparr>Certificate = notPEM, PrivateKey = []\<rparr>"]
    C3_failures_mean_rotate [of fixture sampleNotBefore
      "\<lparr>Certificate = brokenCertificatePEM, PrivateKey = []\<rparr>"]
  by (simp add: fixture_Decode_notPEM fixture_Decode_broken fixture_ParseCertificate_zeros
      errors_New_def)

text \<open>
  C6, as the code has it. A pair whose certificate bytes hold no PEM block makes the
  decision true, and so does a pair whose first PEM block has a payload that does not
  parse as a certificate. The type label of the block is not examined: when a block is
  found, of whatever type, the decision depends on its payload alone, and a payload that
  parses as a certificate is judged by its expiry as in C2.
\<close>

theorem C6_block_type_is_not_examined:
  "(fst (pem_Decode lib (Certificate pair)) = None \<longrightarrow>
      IsTLSPairShouldBeUpdated lib now (Some pair)) \<and>
   (\<forall>block.
      fst (pem_Decode lib (Certificate pair)) = Some block \<longrightarrow>
      IsTLSPairShouldBeUpdated lib now (Some pair) =
        (case x509_ParseCertificate lib (Bytes block) of
           Inl err \<Rightarrow> True
         | Inr cert \<Rightarrow>
             NotAfter cert - now < timeReserveBeforeCertificateExpiration))"
  by (simp add: IsTLSPairShouldBeUpdated_Some)

theorem C6_witness:
  "IsTLSPairShouldBeUpdated fixture sampleNotBefore
     (Some \<lparr>Certificate = notPEM, PrivateKey = []\<rparr>) \<and>
   IsTLSPairShouldBeUpdated fixture sampleNotBefore
     (Some \<lparr>Certificate = brokenCertificatePEM, PrivateKey = []\<rparr>) \<and>
   IsTLSPairShouldBeUpdated fixture (sampleNotAfter - 179 * (24 * Hour))
     (Some \<lparr>Certificate = sampleCertificatePEM ''X509 CERTIFICATE'', PrivateKey = []\<rparr>) =
   IsTLSPairShouldBeUpdated fixture (sampleNotAfter - 179 * (24 * Hour))
     (Some \<lparr>Certificate = sampleCertificatePEM ''CERTIFICATE'', PrivateKey = []\<rparr>)"
  using
    C6_block_type_is_not_examined [of fixture
      "\<lparr>Certificate = notPEM, PrivateKey = []\<rparr>" sampleNotBefore]
    C6_block_type_is_not_examined [of fixture
      "\<lparr>Certificate = brokenCertificatePEM, PrivateKey = []\<rparr>" sampleNotBefore]
    C6_block_type_is_not_examined [of fixture
      "\<lparr>Certificate = sampleCertificatePEM ''X509 CERTIFICATE'', PrivateKey = []\<rparr>"
      "sampleNotAfter - 179 * (24 * Hour)"]
    C6_block_type_is_not_examined [of fixture
      "\<lparr>Certificate = sampleCertificatePEM ''CERTIFICATE'', PrivateKey = []\<rparr>"
      "sampleNotAfter - 179 * (24 * Hour)"]
  by (simp add: fixture_Decode_notPEM fixture_Decode_broken fixture_Decode_sample
      fixture_Decode_sample_X509 fixture_ParseCertificate_zeros
      fixture_ParseCertificate_sample)

text \<open>
  C6 as it is stated fails on the sample certificate framed as a PEM block of type
  \<^verbatim>\<open>X509 CERTIFICATE\<close>: the block is not of type \<^verbatim>\<open>CERTIFICATE\<close>, its payload parses,
  and on the day the certificate is issued, with 3650 days remaining, the decision is
  false.
\<close>

theorem C6_counterexample:
  "map_option Type (fst (pem_Decode fixture (sampleCertificatePEM ''X509 CERTIFICATE''))) =
     Some ''X509 CERTIFICATE'' \<and>
   ''X509 CERTIFICATE'' \<noteq> ''CERTIFICATE'' \<and>
   \<not> IsTLSPairShouldBeUpdated fixture sampleNotBefore
       (Some \<lparr>Certificate = sampleCertificatePEM ''X509 CERTIFICATE'', PrivateKey = []\<rparr>)"
  by (simp add: IsTLSPairShouldBeUpdated_Some fixture_Decode_sample_X509
      fixture_ParseCertificate_sample sampleCertificate_def sampleNotAfter_def
      sampleNotBefore_def timeReserve_value Second_def Millisecond_def Microsecond_def
      Nanosecond_def)

text \<open>
  C10. The decision does not depend on the private key: two pairs with the same
  certificate bytes get the same decision at the same time, whatever their
  \<open>PrivateKey\<close> fields hold.
\<close>

theorem C10_private_key_is_not_read:
  "Certificate pair1 = Certificate pair2 \<Longrightarrow>
   IsTLSPairShouldBeUpdated lib now (Some pair1) =
   IsTLSPairShouldBeUpdated lib now (Some pair2)"
  by (simp add: IsTLSPairShouldBeUpdated_def)

theorem C10_witness:
  "bytes_of_string ''key one'' \<noteq> bytes_of_string ''another key'' \<and>
   IsTLSPairShouldBeUpdated fixture sampleNotBefore
     (Some \<lparr>Certificate = sampleCertificatePEM ''CERTIFICATE'',
            PrivateKey = bytes_of_string ''key one''\<rparr>) =
   IsTLSPairShouldBeUpdated fixture sampleNotBefore
     (Some \<lparr>Certificate = sampleCertificatePEM ''CERTIFICATE'',
            PrivateKey = bytes_of_string ''another key''\<rparr>)"
  using C10_private_key_is_not_read [of
      "\<lparr>Certificate = sampleCertificatePEM ''CERTIFICATE'',
        PrivateKey = bytes_of_string ''key one''\<rparr>"
      "\<lparr>Certificate = sampleCertificatePEM ''CERTIFICATE'',
        PrivateKey = bytes_of_string ''another key''\<rparr>"
      fixture sampleNotBefore]
  by (simp add: bytes_of_string_def)

subsection \<open>The submission object and the key in PEM\<close>

text \<open>
  C7. Whenever \<open>CertificateGenerateRequest\<close> succeeds, the object it returns has
  apiVersion \<^verbatim>\<open>certificates.k8s.io/v1beta1\<close>, kind \<^verbatim>\<open>CertificateSigningRequest\<close> and the
  name \<open>service.namespace.cert-request\<close>; its spec carries the bytes that
  \<^verbatim>\<open>x509.CreateCertificateRequest\<close> returned for the template, framed as a PEM block
  of type \<^verbatim>\<open>CERTIFICATE REQUEST\<close>, exactly the two signer groups, and exactly the four
  usages digital signature, key encipherment, server auth and client auth.
\<close>

theorem C7_submission_object:
  assumes "CertificateGenerateRequest lib rand_Reader privateKey props fqdncn = Inr csr"
  shows "APIVersion (TypeMeta csr) = ''certificates.k8s.io/v1beta1'' \<and>
         Kind (TypeMeta csr) = ''CertificateSigningRequest'' \<and>
         Name (ObjectMeta csr) =
           Service props @ ''.'' @ Namespace props @ ''.cert-request'' \<and>
         (\<exists>csrBytes.
            x509_CreateCertificateRequest lib rand_Reader
              (csrTemplate lib props fqdncn) privateKey = Inr csrBytes \<and>
            Request (Spec csr) = certificateRequestToPem lib csrBytes \<and>
            Request (Spec csr) =
              pem_EncodeToMemory lib
                \<lparr>Type = ''CERTIFICATE REQUEST'', Headers = Map.empty,
                 Bytes = csrBytes\<rparr>) \<and>
         Groups (Spec csr) = [''system:masters'', ''system:authenticated''] \<and>
         Usages (Spec csr) =
           [UsageDigitalSignature, UsageKeyEncipherment, UsageServerAuth, UsageClientAuth]"
  using assms
  by (auto simp add: CertificateGenerateRequest_def certificateRequestToPem_def
      split: sum.splits)

theorem C7_witness:
  "CertificateGenerateRequest fixture zeroReader sampleKey
     \<lparr>Service = ''webhook'', Namespace = ''kube-system'',
      ApiServerHost = ''10.0.0.1''\<rparr> False =
   Inr \<lparr>TypeMeta =
          \<lparr>Kind = ''CertificateSigningRequest'',
           APIVersion = ''certificates.k8s.io/v1beta1''\<rparr>,
        ObjectMeta = \<lparr>Name = ''webhook.kube-system.cert-request''\<rparr>,
        Spec =
          \<lparr>Request = certificateRequestToPem fixture [],
           Groups = [''system:masters'', ''system:authenticated''],
           Usages =
             [UsageDigitalSignature, UsageKeyEncipherment, UsageServerAuth,
              UsageClientAuth]\<rparr>\<rparr>"
proof -
  let ?props =
    "\<lparr>Service = ''webhook'', Namespace = ''kube-system'', ApiServerHost = ''10.0.0.1''\<rparr>"
  obtain csr where
    ok: "CertificateGenerateRequest fixture zeroReader sampleKey ?props False = Inr csr"
    by (simp add: CertificateGenerateRequest_def fixture_def)
  have created:
    "x509_CreateCertificateRequest fixture zeroReader (csrTemplate fixture ?props False)
       sampleKey = Inr []"
    by (simp add: fixture_def)
  from C7_submission_object [OF ok] created
  have "csr =
    \<lparr>TypeMeta =
       \<lparr>Kind = ''CertificateSigningRequest'',
        APIVersion = ''certificates.k8s.io/v1beta1''\<rparr>,
     ObjectMeta = \<lparr>Name = ''webhook.kube-system.cert-request''\<rparr>,
     Spec =
       \<lparr>Request = certificateRequestToPem fixture [],
        Groups = [''system:masters'', ''system:authenticated''],
        Usages =
          [UsageDigitalSignature, UsageKeyEncipherment, UsageServerAuth,
           UsageClientAuth]\<rparr>\<rparr>"
    by (cases csr) auto
  with ok show ?thesis by simp
qed

text \<open>
  C8. For every key, \<open>TLSPrivateKeyToPem\<close> returns the PEM encoding of a block of type
  \<^verbatim>\<open>PRIVATE KEY\<close> whose payload is the PKCS#1 encoding of the key. The function has no
  error result and takes no random source: its output is determined by the key and by the
  two library functions it calls (\<^verbatim>\<open>x509.MarshalPKCS1PrivateKey\<close> and
  \<^verbatim>\<open>pem.EncodeToMemory\<close>), so two calls on the same key return the same bytes.
\<close>

theorem C8_private_key_pem:
  "TLSPrivateKeyToPem lib rsaKey =
     pem_EncodeToMemory lib
       \<lparr>Type = ''PRIVATE KEY'', Headers = Map.empty,
        Bytes = x509_MarshalPKCS1PrivateKey lib rsaKey\<rparr> \<and>
   (\<forall>lib' rsaKey'.
      rsaKey' = rsaKey \<and>
      pem_EncodeToMemory lib' = pem_EncodeToMemory lib \<and>
      x509_MarshalPKCS1PrivateKey lib' = x509_MarshalPKCS1PrivateKey lib \<longrightarrow>
      TLSPrivateKeyToPem lib' rsaKey' = TLSPrivateKeyToPem lib rsaKey)"
  by (simp add: TLSPrivateKeyToPem_def)

theorem C8_witness:
  "TLSPrivateKeyToPem fixture sampleKey =
     pem_EncodeToMemory fixture
       \<lparr>Type = ''PRIVATE KEY'', Headers = Map.empty,
        Bytes = x509_MarshalPKCS1PrivateKey fixture sampleKey\<rparr> \<and>
   TLSPrivateKeyToPem (fixture\<lparr>net_ParseIP := (\<lambda>s. None)\<rparr>) sampleKey =
     TLSPrivateKeyToPem fixture sampleKey"
  using C8_private_key_pem [of fixture sampleKey]
  by simp

text \<open>
  C9. The builder does not check that service and namespace are non-empty. The only
  error \<open>CertificateGenerateRequest\<close> returns is the one \<^verbatim>\<open>x509.CreateCertificateRequest\<close>
  returned for the template, and it succeeds whenever that call does, for an empty
  service or namespace as for any other. \<open>GenerateInClusterServiceName\<close> is the plain
  concatenation \<open>service.namespace.svc\<close>, which is \<^verbatim>\<open>..svc\<close> when both are empty.
\<close>

theorem C9_no_validation_of_its_own:
  "(CertificateGenerateRequest lib rand_Reader privateKey props fqdncn = Inl err) =
     (x509_CreateCertificateRequest lib rand_Reader
        (csrTemplate lib props fqdncn) privateKey = Inl err) \<and>
   (\<forall>csrBytes.
      x509_CreateCertificateRequest lib rand_Reader
        (csrTemplate lib props fqdncn) privateKey = Inr csrBytes \<longrightarrow>
      (\<exists>csr. CertificateGenerateRequest lib rand_Reader privateKey props fqdncn = Inr csr)) \<and>
   GenerateInClusterServiceName props =
     Service props @ ''.'' @ Namespace props @ ''.svc'' \<and>
   (Service props = [] \<and> Namespace props = [] \<longrightarrow>
      GenerateInClusterServiceName props = ''..svc'' \<and>
      take 3 (DNSNames (csrTemplate lib props fqdncn)) = ['''', ''.'', ''..svc''])"
  by (auto simp add: CertificateGenerateRequest_def GenerateInClusterServiceName_def
      csrTemplate_DNSNames split: sum.splits)

theorem C9_witness:
  "GenerateInClusterServiceName
     \<lparr>Service = '''', Namespace = '''', ApiServerHost = ''10.0.0.1''\<rparr> = ''..svc'' \<and>
   DNSNames
     (csrTemplate fixture
        \<lparr>Service = '''', Namespace = '''', ApiServerHost = ''10.0.0.1''\<rparr> False) =
     ['''', ''.'', ''..svc''] \<and>
   (\<exists>csr.
      CertificateGenerateRequest fixture zeroReader sampleKey
        \<lparr>Service = '''', Namespace = '''', ApiServerHost = ''10.0.0.1''\<rparr> False =
      Inr csr \<and>
      Name (ObjectMeta csr) = ''..cert-request'')"
proof -
  let ?props = "\<lparr>Service = '''', Namespace = '''', ApiServerHost = ''10.0.0.1''\<rparr>"
  have created:
    "x509_CreateCertificateRequest fixture zeroReader (csrTemplate fixture ?props False)
       sampleKey = Inr []"
    by (simp add: fixture_def)
  from C9_no_validation_of_its_own [of fixture zeroReader sampleKey ?props False] created
  have name: "GenerateInClusterServiceName ?props = ''..svc''"
    and names: "take 3 (DNSNames (csrTemplate fixture ?props False)) = ['''', ''.'', ''..svc'']"
    and ok: "\<exists>csr. CertificateGenerateRequest fixture zeroReader sampleKey ?props False =
               Inr csr"
    by simp_all
  have "length (DNSNames (csrTemplate fixture ?props False)) = 3"
    by (simp add: csrTemplate_DNSNames fixture_ParseIP_values)
  with names have all_names:
    "DNSNames (csrTemplate fixture ?props False) = ['''', ''.'', ''..svc'']"
    by simp
  from ok obtain csr where
    csr: "CertificateGenerateRequest fixture zeroReader sampleKey ?props False = Inr csr"
    by blast
  then have "Name (ObjectMeta csr) = ''..cert-request''"
    by (auto simp add: CertificateGenerateRequest_def split: sum.splits)
  with name all_names csr show ?thesis by blast
qed

end
